theory Spec2Isabelle
  imports Complex_Main
begin

section \<open>Values of the recognition gateway\<close>

text \<open>
  The gateway (\<^verbatim>\<open>src/main.py\<close>) moves JSON documents around: the provider's reply is
  whatever \<^verbatim>\<open>r.json()\<close> returns, and the handlers answer with Python dicts that the
  framework serialises as they are (the routes declare no response model). A Python
  \<^verbatim>\<open>str\<close> is modelled as a \<open>string\<close>, one \<open>char\<close> per character, which covers the
  code points up to U+00FF. A dict is an association list read with \<open>map_of\<close>: the first
  binding of a key is the one a lookup sees. JSON numbers are Python ints, or floats
  modelled by their (finite) value; the code only ever tests a number for being zero.
\<close>

datatype json =
    JNull
  | JBool bool
  | JInt int
  | JFloat rat
  | JStr string
  | JArr "json list"
  | JObj "(string \<times> json) list"

text \<open>
  Two kinds of failure leave the handlers: the \<^verbatim>\<open>HTTPException\<close> they raise themselves
  (status code and detail), and the \<^verbatim>\<open>AttributeError\<close> of calling \<^verbatim>\<open>.get\<close> on a value
  that is not a dict, which no handler catches.
\<close>

datatype error =
    HTTPException (status_code: nat) (detail: string)
  | AttributeError

fun bind_exc :: "error + 'a \<Rightarrow> ('a \<Rightarrow> error + 'b) \<Rightarrow> error + 'b" where
  "bind_exc (Inl e) f = Inl e"
| "bind_exc (Inr x) f = f x"

subsection \<open>Python's truth test, \<^verbatim>\<open>or\<close> and \<^verbatim>\<open>dict.get\<close>\<close>

fun truthy :: "json \<Rightarrow> bool" where
  "truthy JNull = False"
| "truthy (JBool b) = b"
| "truthy (JInt i) = (i \<noteq> 0)"
| "truthy (JFloat q) = (q \<noteq> 0)"
| "truthy (JStr s) = (s \<noteq> [])"
| "truthy (JArr xs) = (xs \<noteq> [])"
| "truthy (JObj kvs) = (kvs \<noteq> [])"

definition py_or :: "json \<Rightarrow> json \<Rightarrow> json" where
  "py_or a b = (if truthy a then a else b)"

text \<open>\<^verbatim>\<open>d.get(k)\<close> on a dict: the value, or \<^verbatim>\<open>None\<close> when the key is missing.\<close>

definition dict_get :: "(string \<times> json) list \<Rightarrow> string \<Rightarrow> json" where
  "dict_get kvs k = (case map_of kvs k of None \<Rightarrow> JNull | Some v \<Rightarrow> v)"

text \<open>\<^verbatim>\<open>x.get(k)\<close> on any value: only a dict has the method.\<close>

fun py_get :: "json \<Rightarrow> string \<Rightarrow> error + json" where
  "py_get (JObj kvs) k = Inr (dict_get kvs k)"
| "py_get JNull k = Inl AttributeError"
| "py_get (JBool b) k = Inl AttributeError"
| "py_get (JInt i) k = Inl AttributeError"
| "py_get (JFloat q) k = Inl AttributeError"
| "py_get (JStr s) k = Inl AttributeError"
| "py_get (JArr xs) k = Inl AttributeError"

text \<open>\<^verbatim>\<open>a or b\<close> on an optional string (\<^verbatim>\<open>None\<close> and \<^verbatim>\<open>""\<close> are false).\<close>

fun str_or :: "string option \<Rightarrow> string \<Rightarrow> string" where
  "str_or None d = d"
| "str_or (Some s) d = (if s = [] then d else s)"

fun str_truthy :: "string option \<Rightarrow> bool" where
  "str_truthy None = False"
| "str_truthy (Some s) = (s \<noteq> [])"

subsection \<open>\<^verbatim>\<open>str.strip\<close> and \<^verbatim>\<open>str.startswith\<close>\<close>

text \<open>
  \<^verbatim>\<open>str.strip()\<close> removes the characters for which \<^verbatim>\<open>str.isspace\<close> holds from both
  ends. Up to U+00FF these are TAB, LF, VT, FF, CR, the separators FS, GS, RS, US, the
  space, NEL (U+0085) and the no-break space (U+00A0).
\<close>

definition isspace :: "char \<Rightarrow> bool" where
  "isspace c = (of_char c \<in> {9, 10, 11, 12, 13, 28, 29, 30, 31, 32, 133, 160 :: nat})"

definition strip :: "string \<Rightarrow> string" where
  "strip s = rev (dropWhile isspace (rev (dropWhile isspace s)))"

definition startswith :: "string \<Rightarrow> string \<Rightarrow> bool" where
  "startswith s p = (take (length p) s = p)"

section \<open>The result normaliser\<close>

text \<open>
  \<^verbatim>\<open>normalize_audd_result\<close> (lines 129 to 151). Every \<^verbatim>\<open>.get\<close> may raise, so the
  function returns \<open>error + json\<close>; the order of the lookups is the source's.
\<close>

definition normalize_audd_result :: "json \<Rightarrow> error + json" where
  "normalize_audd_result result =
     bind_exc (py_get result ''title'') (\<lambda>title.
     bind_exc (py_get result ''artist'') (\<lambda>artist.
     bind_exc (py_get result ''album'') (\<lambda>album.
     bind_exc (py_get result ''release_date'') (\<lambda>release_date.
     bind_exc (py_get result ''timecode'') (\<lambda>timecode.
     bind_exc (py_get result ''song_link'') (\<lambda>song_link.
     bind_exc (py_get result ''apple_music'') (\<lambda>am.
     bind_exc (py_get (py_or am (JObj [])) ''url'') (\<lambda>apple_music.
     bind_exc (py_get result ''spotify'') (\<lambda>sp.
     bind_exc (py_get (py_or sp (JObj [])) ''external_urls'') (\<lambda>ext.
     bind_exc (py_get (py_or ext (JObj [])) ''spotify'') (\<lambda>spotify.
     bind_exc (py_get result ''deezer'') (\<lambda>dz.
     bind_exc (py_get (py_or dz (JObj [])) ''link'') (\<lambda>deezer.
     Inr (JObj
       [(''found'', JBool True),
        (''title'', title),
        (''artist'', artist),
        (''album'', album),
        (''release_date'', release_date),
        (''timecode'', timecode),
        (''links'', JObj
           [(''apple_music'', apple_music),
            (''spotify'', spotify),
            (''deezer'', deezer),
            (''audd'', song_link)])]))))))))))))))"

section \<open>The recognition gateway\<close>

text \<open>
  The provider is the environment. \<^verbatim>\<open>requests.post\<close> either raises (the text of the
  exception is kept, since the handler formats it into its answer) or returns a response;
  the response's \<^verbatim>\<open>json()\<close> either raises, when the body is not parseable JSON, or
  returns the parsed document. Each call the handler makes is recorded, so that "no
  outbound call" is a statement about the returned list of calls.
\<close>

record post_call =
  post_url :: string
  post_data :: "(string \<times> string) list"
  post_files :: "(string \<times> string \<times> string \<times> string) list"
  post_timeout :: nat

datatype response = Response (r_json: "string + json")

type_synonym provider = "post_call \<Rightarrow> string + response"

record IdentifyRequest =
  url :: string

text \<open>
  An \<^verbatim>\<open>UploadFile\<close>: optional file name and content type, and what \<^verbatim>\<open>await file.read()\<close>
  gives (the bytes, or the text of the exception it raises).
\<close>

record UploadFile =
  filename :: "string option"
  content_type :: "string option"
  read :: "string + string"

text \<open>
  Lines 91 to 98 of \<^verbatim>\<open>identify_by_url\<close> and lines 119 to 126 of \<^verbatim>\<open>identify_by_file\<close>
  are the same statements, written once here: what the handler does with the parsed
  document.
\<close>

definition interpret_data :: "json \<Rightarrow> error + json" where
  "interpret_data data =
     (if \<not> truthy data then Inl (HTTPException 502 ''Recognition service error'')
      else bind_exc (py_get data ''status'') (\<lambda>status.
        if status \<noteq> JStr ''success'' then Inl (HTTPException 502 ''Recognition service error'')
        else bind_exc (py_get data ''result'') (\<lambda>result.
          if \<not> truthy result then Inr (JObj [(''found'', JBool False)])
          else normalize_audd_result result)))"

text \<open>The \<^verbatim>\<open>try\<close> block shared in shape by both handlers: post, then parse.\<close>

definition contact :: "provider \<Rightarrow> post_call \<Rightarrow> error + json" where
  "contact post c =
     (case post c of
        Inl e \<Rightarrow> Inl (HTTPException 502 (''Failed contacting recognition service: '' @ e))
      | Inr r \<Rightarrow>
          (case r_json r of
             Inl e \<Rightarrow> Inl (HTTPException 502 (''Failed contacting recognition service: '' @ e))
           | Inr data \<Rightarrow> Inr data))"

definition url_call :: "string \<Rightarrow> string \<Rightarrow> post_call" where
  "url_call token u =
     \<lparr>post_url = ''https://api.audd.io/'',
      post_data = [(''api_token'', token), (''url'', u),
                   (''return'', ''timecode,deezer,spotify,apple_music'')],
      post_files = [],
      post_timeout = 30\<rparr>"

definition file_call :: "string \<Rightarrow> UploadFile \<Rightarrow> string \<Rightarrow> post_call" where
  "file_call token file content =
     \<lparr>post_url = ''https://api.audd.io/'',
      post_data = [(''api_token'', token),
                   (''return'', ''timecode,deezer,spotify,apple_music'')],
      post_files = [(''file'', str_or (filename file) ''clip.mp3'', content,
                     str_or (content_type file) ''audio/mpeg'')],
      post_timeout = 60\<rparr>"

text \<open>
  \<^verbatim>\<open>identify_by_url\<close> (lines 68 to 98). The first argument is the module's
  \<^verbatim>\<open>AUDD_API_TOKEN\<close>, the value of \<^verbatim>\<open>os.getenv\<close>: \<open>None\<close> when the variable is unset.
  The result is the list of outbound calls made and the handler's outcome. The token is
  taken out of its option only behind the test that it is set.
\<close>

definition identify_by_url ::
  "string option \<Rightarrow> provider \<Rightarrow> IdentifyRequest \<Rightarrow> post_call list \<times> (error + json)" where
  "identify_by_url AUDD_API_TOKEN post payload =
     (if \<not> str_truthy AUDD_API_TOKEN
      then ([], Inl (HTTPException 400 ''AUDD_API_TOKEN env var is not set on the server''))
      else
        let u = strip (str_or (Some (url payload)) '''') in
        if \<not> (startswith u ''http://'' \<or> startswith u ''https://'')
        then ([], Inl (HTTPException 422
                 ''Please provide a valid URL starting with http(s)://''))
        else
          let c = url_call (the AUDD_API_TOKEN) u in
          ([c], bind_exc (contact post c) interpret_data))"

text \<open>
  \<^verbatim>\<open>identify_by_file\<close> (lines 101 to 126). Reading the upload is inside the \<^verbatim>\<open>try\<close>, so
  a failing read is answered like a failing call, before any call is made.
\<close>

definition identify_by_file ::
  "string option \<Rightarrow> provider \<Rightarrow> UploadFile \<Rightarrow> post_call list \<times> (error + json)" where
  "identify_by_file AUDD_API_TOKEN post file =
     (if \<not> str_truthy AUDD_API_TOKEN
      then ([], Inl (HTTPException 400 ''AUDD_API_TOKEN env var is not set on the server''))
      else
        (case read file of
           Inl e \<Rightarrow>
             ([], Inl (HTTPException 502 (''Failed contacting recognition service: '' @ e)))
         | Inr content \<Rightarrow>
             let c = file_call (the AUDD_API_TOKEN) file content in
             ([c], bind_exc (contact post c) interpret_data)))"

section \<open>Vocabulary of the specification\<close>

text \<open>
  The specification describes a link as a path into the provider result:
  \<^verbatim>\<open>result.spotify.external_urls.spotify\<close> "if the full chain is present", null
  otherwise. \<open>spec_path\<close> follows those words, not the code: it walks the keys and
  answers null as soon as a step has no object to look into or the object has no such key.
\<close>

fun spec_path :: "json \<Rightarrow> string list \<Rightarrow> json" where
  "spec_path v [] = v"
| "spec_path (JObj kvs) (k # ks) =
     (case map_of kvs k of None \<Rightarrow> JNull | Some w \<Rightarrow> spec_path w ks)"
| "spec_path v (k # ks) = JNull"

text \<open>
  A provider result is well formed when each service entry (\<^verbatim>\<open>apple_music\<close>,
  \<^verbatim>\<open>spotify\<close>, \<^verbatim>\<open>deezer\<close>, and \<^verbatim>\<open>external_urls\<close> inside \<^verbatim>\<open>spotify\<close>) is an
  object when it carries anything: missing, null and empty entries are all allowed.
\<close>

definition gettable :: "json \<Rightarrow> bool" where
  "gettable v = (case v of JObj kvs \<Rightarrow> True | _ \<Rightarrow> \<not> truthy v)"

definition well_formed :: "(string \<times> json) list \<Rightarrow> bool" where
  "well_formed kvs =
     (gettable (dict_get kvs ''apple_music'') \<and>
      gettable (dict_get kvs ''spotify'') \<and>
      gettable (spec_path (dict_get kvs ''spotify'') [''external_urls'']) \<and>
      gettable (dict_get kvs ''deezer''))"


text \<open>
  Two stand-ins for the provider, for concrete runs: one answers every call with a
  response whose \<^verbatim>\<open>json()\<close> gives the stated outcome, the other fails every call.
\<close>

definition replying :: "string + json \<Rightarrow> provider" where
  "replying body c = Inr (Response body)"

definition unreachable :: "string \<Rightarrow> provider" where
  "unreachable e c = Inl e"

section \<open>Properties of the normaliser\<close>


lemma get_or_empty:
  "gettable v \<Longrightarrow> py_get (py_or v (JObj [])) k = Inr (spec_path v [k])"
  by (cases v) (auto simp: gettable_def py_or_def dict_get_def split: option.splits)

lemma get_or_empty_raises:
  "\<not> gettable v \<Longrightarrow> py_get (py_or v (JObj [])) k = Inl AttributeError"
  by (cases v) (auto simp: gettable_def py_or_def)

lemma spec_path_Null: "spec_path JNull ks = JNull"
  by (cases ks) auto

lemma spec_path_dict_get: "spec_path (JObj kvs) (k # ks) = spec_path (dict_get kvs k) ks"
  by (cases ks) (auto simp: dict_get_def split: option.splits)

lemma spec_path_step: "spec_path v (k # ks) = spec_path (spec_path v [k]) ks"
  by (cases v) (auto simp: spec_path_Null split: option.splits)

text \<open>On a well-formed result the code computes what the specification describes.\<close>

lemma normalize_well_formed:
  assumes "well_formed kvs"
  shows "normalize_audd_result (JObj kvs) = Inr (JObj
       [(''found'', JBool True),
        (''title'', dict_get kvs ''title''),
        (''artist'', dict_get kvs ''artist''),
        (''album'', dict_get kvs ''album''),
        (''release_date'', dict_get kvs ''release_date''),
        (''timecode'', dict_get kvs ''timecode''),
        (''links'', JObj
           [(''apple_music'', spec_path (JObj kvs) [''apple_music'', ''url'']),
            (''spotify'', spec_path (JObj kvs) [''spotify'', ''external_urls'', ''spotify'']),
            (''deezer'', spec_path (JObj kvs) [''deezer'', ''link'']),
            (''audd'', spec_path (JObj kvs) [''song_link''])])])"
proof -
  let ?sp = "dict_get kvs ''spotify''"
  have am: "spec_path (JObj kvs) [''apple_music'', ''url''] =
      spec_path (dict_get kvs ''apple_music'') [''url'']"
    by (rule spec_path_dict_get)
  have sp: "spec_path (JObj kvs) [''spotify'', ''external_urls'', ''spotify''] =
      spec_path (spec_path ?sp [''external_urls'']) [''spotify'']"
    by (subst spec_path_dict_get) (rule spec_path_step)
  have dz: "spec_path (JObj kvs) [''deezer'', ''link''] =
      spec_path (dict_get kvs ''deezer'') [''link'']"
    by (rule spec_path_dict_get)
  have au: "spec_path (JObj kvs) [''song_link''] = dict_get kvs ''song_link''"
    by (simp only: spec_path_dict_get spec_path.simps(1))
  from assms show ?thesis
    unfolding am sp dz au
    by (simp add: normalize_audd_result_def well_formed_def get_or_empty
          del: spec_path.simps)
qed

text \<open>Outside the well-formed results the first ill-shaped service entry raises.\<close>

lemma normalize_ill_formed:
  assumes "\<not> well_formed kvs"
  shows "normalize_audd_result (JObj kvs) = Inl AttributeError"
proof -
  let ?am = "dict_get kvs ''apple_music''" and ?sp = "dict_get kvs ''spotify''"
  let ?ext = "spec_path ?sp [''external_urls'']" and ?dz = "dict_get kvs ''deezer''"
  consider "\<not> gettable ?am"
    | "gettable ?am" "\<not> gettable ?sp"
    | "gettable ?am" "gettable ?sp" "\<not> gettable ?ext"
    | "gettable ?am" "gettable ?sp" "gettable ?ext" "\<not> gettable ?dz"
    using assms unfolding well_formed_def by blast
  then show ?thesis
  proof cases
    case 1
    then show ?thesis
      by (simp add: normalize_audd_result_def get_or_empty_raises)
  next
    case 2
    then show ?thesis
      by (simp add: normalize_audd_result_def get_or_empty get_or_empty_raises)
  next
    case 3
    then show ?thesis
      by (simp add: normalize_audd_result_def get_or_empty get_or_empty_raises)
  next
    case 4
    then show ?thesis
      by (simp add: normalize_audd_result_def get_or_empty get_or_empty_raises)
  qed
qed


lemma normalize_never_http: "normalize_audd_result result \<noteq> Inl (HTTPException n d)"
proof (cases result)
  case (JObj kvs)
  then show ?thesis
    using normalize_well_formed [of kvs] normalize_ill_formed [of kvs]
    by (cases "well_formed kvs") simp_all
qed (simp_all add: normalize_audd_result_def)

section \<open>Properties of the gateway\<close>

lemma identify_by_url_calls:
  assumes "token \<noteq> []"
    and "startswith (strip (url payload)) ''http://'' \<or>
         startswith (strip (url payload)) ''https://''"
  shows "identify_by_url (Some token) post payload =
     ([url_call token (strip (url payload))],
      bind_exc (contact post (url_call token (strip (url payload)))) interpret_data)"
  using assms by (auto simp add: identify_by_url_def Let_def)

lemma identify_by_file_calls:
  assumes "token \<noteq> []" and "read file = Inr content"
  shows "identify_by_file (Some token) post file =
     ([file_call token file content],
      bind_exc (contact post (file_call token file content)) interpret_data)"
  using assms by (simp add: identify_by_file_def Let_def)

lemma contact_parsed:
  "post c = Inr r \<Longrightarrow> r_json r = Inr data \<Longrightarrow> contact post c = Inr data"
  by (simp add: contact_def)

lemma contact_unparseable:
  "post c = Inr r \<Longrightarrow> r_json r = Inl e \<Longrightarrow>
   contact post c = Inl (HTTPException 502 (''Failed contacting recognition service: '' @ e))"
  by (simp add: contact_def)

lemma contact_cases:
  "(\<exists>e. contact post c =
      Inl (HTTPException 502 (''Failed contacting recognition service: '' @ e))) \<or>
   (\<exists>data. contact post c = Inr data)"
  by (auto simp: contact_def split: sum.splits)

lemma interpret_data_not_success:
  "dict_get kvs ''status'' \<noteq> JStr ''success'' \<Longrightarrow>
   interpret_data (JObj kvs) = Inl (HTTPException 502 ''Recognition service error'')"
  by (simp add: interpret_data_def)

lemma interpret_data_no_match:
  assumes "dict_get kvs ''status'' = JStr ''success''"
    and "\<not> truthy (dict_get kvs ''result'')"
  shows "interpret_data (JObj kvs) = Inr (JObj [(''found'', JBool False)])"
proof -
  from assms(1) have "kvs \<noteq> []"
    by (auto simp: dict_get_def)
  with assms show ?thesis
    by (simp add: interpret_data_def)
qed

lemma interpret_data_cases:
  "interpret_data data = Inl (HTTPException 502 ''Recognition service error'') \<or>
   interpret_data data = Inl AttributeError \<or>
   interpret_data data = Inr (JObj [(''found'', JBool False)]) \<or>
   (\<exists>result. truthy result \<and> interpret_data data = normalize_audd_result result)"
  by (cases data) (auto simp: interpret_data_def)

lemma interpret_data_never_422: "interpret_data data \<noteq> Inl (HTTPException 422 d)"
  using interpret_data_cases [of data] normalize_never_http [of _ 422 d]
  by (elim disjE exE) simp_all

lemma identify_by_file_never_422:
  "snd (identify_by_file tok post file) \<noteq> Inl (HTTPException 422 d)"
proof (cases "str_truthy tok")
  case False
  then show ?thesis by (simp add: identify_by_file_def)
next
  case True
  show ?thesis
  proof (cases "read file")
    case (Inl e)
    with True show ?thesis by (simp add: identify_by_file_def)
  next
    case (Inr content)
    let ?c = "file_call (the tok) file content"
    from contact_cases [of post ?c]
    have "bind_exc (contact post ?c) interpret_data \<noteq> Inl (HTTPException 422 d)"
      by (elim disjE exE) (simp_all add: interpret_data_never_422)
    with True Inr show ?thesis by (simp add: identify_by_file_def Let_def)
  qed
qed




text \<open>The generic message is the answer to an empty document or a status other than success.\<close>

lemma interpret_data_generic:
  assumes "interpret_data data = Inl (HTTPException n ''Recognition service error'')"
  shows "\<not> truthy data \<or>
     (\<exists>kvs. data = JObj kvs \<and> dict_get kvs ''status'' \<noteq> JStr ''success'')"
proof (cases data)
  case (JObj kvs)
  show ?thesis
  proof (cases "truthy data \<and> dict_get kvs ''status'' = JStr ''success''")
    case False
    with JObj show ?thesis by auto
  next
    case True
    show ?thesis
    proof (cases "truthy (dict_get kvs ''result'')")
      case False
      with True assms JObj show ?thesis
        by (simp add: interpret_data_def)
    next
      case t: True
      with True assms JObj
      have "normalize_audd_result (dict_get kvs ''result'') =
          Inl (HTTPException n ''Recognition service error'')"
        by (simp add: interpret_data_def)
      with normalize_never_http show ?thesis by blast
    qed
  qed
qed (use assms in \<open>simp_all add: interpret_data_def split: if_splits\<close>)

lemma contact_failed:
  "post c = Inl e \<Longrightarrow>
   contact post c = Inl (HTTPException 502 (''Failed contacting recognition service: '' @ e))"
  by (simp add: contact_def)

lemma contact_Inr:
  "contact post c = Inr data \<longleftrightarrow> (\<exists>r. post c = Inr r \<and> r_json r = Inr data)"
  by (auto simp: contact_def split: sum.splits)

lemma contact_never_generic:
  "contact post c \<noteq> Inl (HTTPException n ''Recognition service error'')"
  by (auto simp: contact_def split: sum.splits)

lemma bind_exc_Inl:
  "bind_exc m f = Inl e \<longleftrightarrow> m = Inl e \<or> (\<exists>x. m = Inr x \<and> f x = Inl e)"
  by (cases m) auto



section \<open>The claims about the normaliser\<close>

text \<open>
  Claim C5. \<^verbatim>\<open>Normalize\<close> is total on provider results: for every well-formed result
  object, whatever subset of its keys is present, \<^verbatim>\<open>normalize_audd_result\<close> raises nothing
  and returns a normalized result with \<^verbatim>\<open>found\<close> true; a field that is absent from the
  result comes out as null.
\<close>

theorem normalize_total:
  assumes "well_formed kvs"
  shows "\<exists>title artist album release_date timecode apple_music spotify deezer audd.
     normalize_audd_result (JObj kvs) = Inr (JObj
       [(''found'', JBool True),
        (''title'', title),
        (''artist'', artist),
        (''album'', album),
        (''release_date'', release_date),
        (''timecode'', timecode),
        (''links'', JObj
           [(''apple_music'', apple_music),
            (''spotify'', spotify),
            (''deezer'', deezer),
            (''audd'', audd)])]) \<and>
     (map_of kvs ''title'' = None \<longrightarrow> title = JNull) \<and>
     (map_of kvs ''artist'' = None \<longrightarrow> artist = JNull) \<and>
     (map_of kvs ''album'' = None \<longrightarrow> album = JNull) \<and>
     (map_of kvs ''release_date'' = None \<longrightarrow> release_date = JNull) \<and>
     (map_of kvs ''timecode'' = None \<longrightarrow> timecode = JNull) \<and>
     (map_of kvs ''apple_music'' = None \<longrightarrow> apple_music = JNull) \<and>
     (map_of kvs ''spotify'' = None \<longrightarrow> spotify = JNull) \<and>
     (map_of kvs ''deezer'' = None \<longrightarrow> deezer = JNull) \<and>
     (map_of kvs ''song_link'' = None \<longrightarrow> audd = JNull)"
proof -
  have absent: "map_of kvs k = None \<Longrightarrow> spec_path (JObj kvs) (k # ks) = JNull" for k ks
    by simp
  have scalar: "map_of kvs k = None \<Longrightarrow> dict_get kvs k = JNull" for k
    by (simp add: dict_get_def)
  show ?thesis
    unfolding normalize_well_formed [OF assms]
    by (simp add: absent scalar del: spec_path.simps)
qed

theorem normalize_total_witness:
  "well_formed [(''artist'', JStr ''Ann''), (''deezer'', JObj [])] \<and>
   normalize_audd_result (JObj [(''artist'', JStr ''Ann''), (''deezer'', JObj [])]) =
     Inr (JObj
       [(''found'', JBool True),
        (''title'', JNull),
        (''artist'', JStr ''Ann''),
        (''album'', JNull),
        (''release_date'', JNull),
        (''timecode'', JNull),
        (''links'', JObj
           [(''apple_music'', JNull),
            (''spotify'', JNull),
            (''deezer'', JNull),
            (''audd'', JNull)])])"
proof -
  let ?kvs = "[(''artist'', JStr ''Ann''), (''deezer'', JObj [])]"
  have wf: "well_formed ?kvs"
    by (simp add: well_formed_def gettable_def dict_get_def)
  have art: "dict_get ?kvs ''artist'' = JStr ''Ann''"
    by (simp add: dict_get_def)
  from normalize_total [OF wf] art wf show ?thesis
    by (auto simp: normalize_audd_result_def dict_get_def py_or_def)
qed

text \<open>
  Claim C6. The links come from fixed chains of lookups: \<^verbatim>\<open>apple_music\<close> from
  \<^verbatim>\<open>result.apple_music.url\<close>, \<^verbatim>\<open>spotify\<close> from \<^verbatim>\<open>result.spotify.external_urls.spotify\<close>,
  \<^verbatim>\<open>deezer\<close> from \<^verbatim>\<open>result.deezer.link\<close> and \<^verbatim>\<open>audd\<close> from the top-level
  \<^verbatim>\<open>result.song_link\<close>, each null as soon as a step of its chain is absent. The two
  examples of the specification are the second and third conjunct: the result with all
  four links, and the result that has a title and nothing else.
\<close>

theorem link_chains:
  "(well_formed kvs \<longrightarrow>
     (\<exists>title artist album release_date timecode.
       normalize_audd_result (JObj kvs) = Inr (JObj
         [(''found'', JBool True),
          (''title'', title),
          (''artist'', artist),
          (''album'', album),
          (''release_date'', release_date),
          (''timecode'', timecode),
          (''links'', JObj
             [(''apple_music'', spec_path (JObj kvs) [''apple_music'', ''url'']),
              (''spotify'',
                 spec_path (JObj kvs) [''spotify'', ''external_urls'', ''spotify'']),
              (''deezer'', spec_path (JObj kvs) [''deezer'', ''link'']),
              (''audd'', spec_path (JObj kvs) [''song_link''])])]))) \<and>
   normalize_audd_result (JObj
       [(''apple_music'', JObj [(''url'', JStr ''A'')]),
        (''spotify'', JObj [(''external_urls'', JObj [(''spotify'', JStr ''S'')])]),
        (''deezer'', JObj [(''link'', JStr ''D'')]),
        (''song_link'', JStr ''L'')]) =
     Inr (JObj
       [(''found'', JBool True),
        (''title'', JNull),
        (''artist'', JNull),
        (''album'', JNull),
        (''release_date'', JNull),
        (''timecode'', JNull),
        (''links'', JObj
           [(''apple_music'', JStr ''A''),
            (''spotify'', JStr ''S''),
            (''deezer'', JStr ''D''),
            (''audd'', JStr ''L'')])]) \<and>
   normalize_audd_result (JObj [(''title'', JStr ''T'')]) =
     Inr (JObj
       [(''found'', JBool True),
        (''title'', JStr ''T''),
        (''artist'', JNull),
        (''album'', JNull),
        (''release_date'', JNull),
        (''timecode'', JNull),
        (''links'', JObj
           [(''apple_music'', JNull),
            (''spotify'', JNull),
            (''deezer'', JNull),
            (''audd'', JNull)])])"
proof (intro conjI impI)
  assume "well_formed kvs"
  then show "\<exists>title artist album release_date timecode.
       normalize_audd_result (JObj kvs) = Inr (JObj
         [(''found'', JBool True),
          (''title'', title),
          (''artist'', artist),
          (''album'', album),
          (''release_date'', release_date),
          (''timecode'', timecode),
          (''links'', JObj
             [(''apple_music'', spec_path (JObj kvs) [''apple_music'', ''url'']),
              (''spotify'',
                 spec_path (JObj kvs) [''spotify'', ''external_urls'', ''spotify'']),
              (''deezer'', spec_path (JObj kvs) [''deezer'', ''link'']),
              (''audd'', spec_path (JObj kvs) [''song_link''])])])"
    by (intro exI) (rule normalize_well_formed)
qed (simp_all add: normalize_audd_result_def dict_get_def py_or_def)

theorem link_chains_witness:
  "well_formed
     [(''spotify'', JObj [(''external_urls'', JObj [(''apple'', JStr ''X'')])]),
      (''deezer'', JObj [(''link'', JStr ''D'')])] \<and>
   (\<exists>title artist album release_date timecode.
     normalize_audd_result (JObj
       [(''spotify'', JObj [(''external_urls'', JObj [(''apple'', JStr ''X'')])]),
        (''deezer'', JObj [(''link'', JStr ''D'')])]) =
     Inr (JObj
       [(''found'', JBool True),
        (''title'', title),
        (''artist'', artist),
        (''album'', album),
        (''release_date'', release_date),
        (''timecode'', timecode),
        (''links'', JObj
           [(''apple_music'', JNull),
            (''spotify'', JNull),
            (''deezer'', JStr ''D''),
            (''audd'', JNull)])]))"
proof -
  let ?kvs = "[(''spotify'', JObj [(''external_urls'', JObj [(''apple'', JStr ''X'')])]),
      (''deezer'', JObj [(''link'', JStr ''D'')])]"
  have wf: "well_formed ?kvs"
    by (simp add: well_formed_def gettable_def dict_get_def)
  from link_chains [of ?kvs] wf show ?thesis
    by simp
qed



section \<open>The claims about the gateway\<close>

text \<open>
  Claim C4. With the provider credential unset, \<^verbatim>\<open>identify_by_url\<close> and
  \<^verbatim>\<open>identify_by_file\<close> fail with the configuration error (status 400) and make no
  outbound call, whatever the request and whatever the provider would answer. An empty
  credential is treated like an unset one.
\<close>

theorem credential_unset_fails_first:
  "identify_by_url None post payload =
     ([], Inl (HTTPException 400 ''AUDD_API_TOKEN env var is not set on the server'')) \<and>
   identify_by_file None post file =
     ([], Inl (HTTPException 400 ''AUDD_API_TOKEN env var is not set on the server'')) \<and>
   identify_by_url (Some []) post payload =
     ([], Inl (HTTPException 400 ''AUDD_API_TOKEN env var is not set on the server'')) \<and>
   identify_by_file (Some []) post file =
     ([], Inl (HTTPException 400 ''AUDD_API_TOKEN env var is not set on the server''))"
  by (simp add: identify_by_url_def identify_by_file_def)

text \<open>
  Claim C3, as amended. For every url that, once trimmed, starts with neither
  \<^verbatim>\<open>http://\<close> nor \<^verbatim>\<open>https://\<close>, \<^verbatim>\<open>identify_by_url\<close> makes no outbound call; it fails
  with the validation error (status 422) when the provider credential is set, and with
  the configuration error (status 400) when it is not, since the credential is checked
  first.
\<close>

theorem malformed_url_rejected:
  assumes "\<not> (startswith (strip (url payload)) ''http://'' \<or>
             startswith (strip (url payload)) ''https://'')"
  shows "fst (identify_by_url tok post payload) = [] \<and>
     (str_truthy tok \<longrightarrow>
        snd (identify_by_url tok post payload) =
          Inl (HTTPException 422 ''Please provide a valid URL starting with http(s)://'')) \<and>
     (\<not> str_truthy tok \<longrightarrow>
        snd (identify_by_url tok post payload) =
          Inl (HTTPException 400 ''AUDD_API_TOKEN env var is not set on the server''))"
  using assms by (simp add: identify_by_url_def)

theorem malformed_url_rejected_witness:
  "\<not> (startswith (strip (url \<lparr>url = '' ftp://a.b/c.mp3''\<rparr>)) ''http://'' \<or>
      startswith (strip (url \<lparr>url = '' ftp://a.b/c.mp3''\<rparr>)) ''https://'') \<and>
   str_truthy (Some ''k'') \<and>
   identify_by_url (Some ''k'') (replying (Inr JNull)) \<lparr>url = '' ftp://a.b/c.mp3''\<rparr> =
     ([], Inl (HTTPException 422 ''Please provide a valid URL starting with http(s)://'')) \<and>
   \<not> str_truthy None \<and>
   identify_by_url None (replying (Inr JNull)) \<lparr>url = '' ftp://a.b/c.mp3''\<rparr> =
     ([], Inl (HTTPException 400 ''AUDD_API_TOKEN env var is not set on the server''))"
proof -
  let ?p = "\<lparr>url = '' ftp://a.b/c.mp3''\<rparr>"
  have bad: "\<not> (startswith (strip (url ?p)) ''http://'' \<or>
      startswith (strip (url ?p)) ''https://'')"
    by (simp add: strip_def isspace_def startswith_def)
  from malformed_url_rejected [OF bad, of "Some ''k''" "replying (Inr JNull)"]
  have set: "identify_by_url (Some ''k'') (replying (Inr JNull)) ?p =
     ([], Inl (HTTPException 422 ''Please provide a valid URL starting with http(s)://''))"
    by (intro prod_eqI) simp_all
  from malformed_url_rejected [OF bad, of None "replying (Inr JNull)"]
  have unset: "identify_by_url None (replying (Inr JNull)) ?p =
     ([], Inl (HTTPException 400 ''AUDD_API_TOKEN env var is not set on the server''))"
    by (intro prod_eqI) simp_all
  from bad set unset show ?thesis
    by simp
qed

text \<open>
  Claim C3 as it is written fails: with the credential unset, a url that does not start
  with \<^verbatim>\<open>http://\<close> or \<^verbatim>\<open>https://\<close> is answered with the configuration error, status
  400, not with the validation error.
\<close>

theorem malformed_url_counterexample:
  "\<not> (startswith (strip ''ftp://a.b/c.mp3'') ''http://'' \<or>
      startswith (strip ''ftp://a.b/c.mp3'') ''https://'') \<and>
   identify_by_url None (unreachable ''down'') \<lparr>url = ''ftp://a.b/c.mp3''\<rparr> =
     ([], Inl (HTTPException 400 ''AUDD_API_TOKEN env var is not set on the server''))"
  by (simp add: identify_by_url_def strip_def isspace_def startswith_def)

text \<open>
  Claim C2, as amended. When the provider answers with a body that is not parseable
  JSON, both operations fail with status 502, and the detail is the text
  \<^verbatim>\<open>Failed contacting recognition service: \<close> followed by the text of the parse exception:
  the same answer as for a transport failure, not the fixed generic message. The generic
  message \<^verbatim>\<open>Recognition service error\<close> is given only to an answer that was parsed and
  is empty or has a status other than \<^verbatim>\<open>success\<close>.
\<close>

theorem unparseable_body_answer:
  assumes "token \<noteq> []"
  shows
    "(startswith (strip (url payload)) ''http://'' \<or>
      startswith (strip (url payload)) ''https://'' \<longrightarrow>
        (post (url_call token (strip (url payload))) = Inr r \<and> r_json r = Inl e \<longrightarrow>
           identify_by_url (Some token) post payload =
             ([url_call token (strip (url payload))],
              Inl (HTTPException 502 (''Failed contacting recognition service: '' @ e)))) \<and>
        (post (url_call token (strip (url payload))) = Inl e \<longrightarrow>
           identify_by_url (Some token) post payload =
             ([url_call token (strip (url payload))],
              Inl (HTTPException 502 (''Failed contacting recognition service: '' @ e))))) \<and>
     (read file = Inr content \<longrightarrow>
        (post (file_call token file content) = Inr r \<and> r_json r = Inl e \<longrightarrow>
           identify_by_file (Some token) post file =
             ([file_call token file content],
              Inl (HTTPException 502 (''Failed contacting recognition service: '' @ e)))) \<and>
        (post (file_call token file content) = Inl e \<longrightarrow>
           identify_by_file (Some token) post file =
             ([file_call token file content],
              Inl (HTTPException 502 (''Failed contacting recognition service: '' @ e))))) \<and>
     (snd (identify_by_url (Some token) post payload) =
        Inl (HTTPException n ''Recognition service error'') \<longrightarrow>
        (\<exists>r data. post (url_call token (strip (url payload))) = Inr r \<and>
           r_json r = Inr data \<and>
           (\<not> truthy data \<or>
            (\<exists>kvs. data = JObj kvs \<and> dict_get kvs ''status'' \<noteq> JStr ''success'')))) \<and>
     (snd (identify_by_file (Some token) post file) =
        Inl (HTTPException n ''Recognition service error'') \<longrightarrow>
        (\<exists>content r data. read file = Inr content \<and>
           post (file_call token file content) = Inr r \<and> r_json r = Inr data \<and>
           (\<not> truthy data \<or>
            (\<exists>kvs. data = JObj kvs \<and> dict_get kvs ''status'' \<noteq> JStr ''success''))))"
proof (intro conjI impI)
  assume ok: "startswith (strip (url payload)) ''http://'' \<or>
      startswith (strip (url payload)) ''https://''"
    and "post (url_call token (strip (url payload))) = Inr r \<and> r_json r = Inl e"
  with assms show "identify_by_url (Some token) post payload =
             ([url_call token (strip (url payload))],
              Inl (HTTPException 502 (''Failed contacting recognition service: '' @ e)))"
    by (simp add: identify_by_url_calls contact_unparseable)
next
  assume ok: "startswith (strip (url payload)) ''http://'' \<or>
      startswith (strip (url payload)) ''https://''"
    and "post (url_call token (strip (url payload))) = Inl e"
  with assms show "identify_by_url (Some token) post payload =
             ([url_call token (strip (url payload))],
              Inl (HTTPException 502 (''Failed contacting recognition service: '' @ e)))"
    by (simp add: identify_by_url_calls contact_failed)
next
  assume got: "read file = Inr content"
    and "post (file_call token file content) = Inr r \<and> r_json r = Inl e"
  with assms show "identify_by_file (Some token) post file =
             ([file_call token file content],
              Inl (HTTPException 502 (''Failed contacting recognition service: '' @ e)))"
    by (simp add: identify_by_file_calls contact_unparseable)
next
  assume got: "read file = Inr content"
    and "post (file_call token file content) = Inl e"
  with assms show "identify_by_file (Some token) post file =
             ([file_call token file content],
              Inl (HTTPException 502 (''Failed contacting recognition service: '' @ e)))"
    by (simp add: identify_by_file_calls contact_failed)
next
  assume "snd (identify_by_url (Some token) post payload) =
        Inl (HTTPException n ''Recognition service error'')"
  then obtain r data where "post (url_call token (strip (url payload))) = Inr r"
    and "r_json r = Inr data"
    and "interpret_data data = Inl (HTTPException n ''Recognition service error'')"
    using assms
    by (auto simp: identify_by_url_def Let_def bind_exc_Inl contact_never_generic contact_Inr
        split: if_splits)
  with interpret_data_generic [of data n]
  show "\<exists>r data. post (url_call token (strip (url payload))) = Inr r \<and>
           r_json r = Inr data \<and>
           (\<not> truthy data \<or>
            (\<exists>kvs. data = JObj kvs \<and> dict_get kvs ''status'' \<noteq> JStr ''success''))"
    by blast
next
  assume "snd (identify_by_file (Some token) post file) =
        Inl (HTTPException n ''Recognition service error'')"
  then obtain content r data where "read file = Inr content"
    and "post (file_call token file content) = Inr r"
    and "r_json r = Inr data"
    and "interpret_data data = Inl (HTTPException n ''Recognition service error'')"
    using assms
    by (auto simp: identify_by_file_def Let_def bind_exc_Inl contact_never_generic contact_Inr
        split: if_splits sum.splits)
  with interpret_data_generic [of data n]
  show "\<exists>content r data. read file = Inr content \<and>
           post (file_call token file content) = Inr r \<and> r_json r = Inr data \<and>
           (\<not> truthy data \<or>
            (\<exists>kvs. data = JObj kvs \<and> dict_get kvs ''status'' \<noteq> JStr ''success''))"
    by blast
qed

theorem unparseable_body_answer_witness:
  "identify_by_url (Some ''k'') (replying (Inl ''Expecting value''))
     \<lparr>url = ''https://a.b/c.mp3''\<rparr> =
     ([url_call ''k'' ''https://a.b/c.mp3''],
      Inl (HTTPException 502 ''Failed contacting recognition service: Expecting value'')) \<and>
   identify_by_url (Some ''k'') (unreachable ''Expecting value'')
     \<lparr>url = ''https://a.b/c.mp3''\<rparr> =
     ([url_call ''k'' ''https://a.b/c.mp3''],
      Inl (HTTPException 502 ''Failed contacting recognition service: Expecting value'')) \<and>
   identify_by_file (Some ''k'') (replying (Inl ''Expecting value''))
     \<lparr>filename = None, content_type = None, read = Inr ''RIFF''\<rparr> =
     ([file_call ''k'' \<lparr>filename = None, content_type = None, read = Inr ''RIFF''\<rparr> ''RIFF''],
      Inl (HTTPException 502 ''Failed contacting recognition service: Expecting value'')) \<and>
   identify_by_file (Some ''k'') (unreachable ''Expecting value'')
     \<lparr>filename = None, content_type = None, read = Inr ''RIFF''\<rparr> =
     ([file_call ''k'' \<lparr>filename = None, content_type = None, read = Inr ''RIFF''\<rparr> ''RIFF''],
      Inl (HTTPException 502 ''Failed contacting recognition service: Expecting value'')) \<and>
   snd (identify_by_url (Some ''k'') (replying (Inr (JObj [(''status'', JStr ''error'')])))
     \<lparr>url = ''https://a.b/c.mp3''\<rparr>) =
     Inl (HTTPException 502 ''Recognition service error'') \<and>
   snd (identify_by_file (Some ''k'') (replying (Inr (JObj [(''status'', JStr ''error'')])))
     \<lparr>filename = None, content_type = None, read = Inr ''RIFF''\<rparr>) =
     Inl (HTTPException 502 ''Recognition service error'')"
proof -
  let ?bad = "replying (Inl ''Expecting value'')"
  let ?down = "unreachable ''Expecting value''"
  let ?r = "Response (Inl ''Expecting value'')"
  let ?p = "\<lparr>url = ''https://a.b/c.mp3''\<rparr>"
  let ?f = "\<lparr>filename = None, content_type = None, read = Inr ''RIFF''\<rparr>"
  have tok: "''k'' \<noteq> []" by simp
  have trimmed: "strip ''https://a.b/c.mp3'' = ''https://a.b/c.mp3''"
    by (simp add: strip_def isspace_def)
  have ok: "startswith ''https://a.b/c.mp3'' ''https://''"
    by (simp add: startswith_def)
  have sent: "?bad c = Inr ?r" and lost: "?down c = Inl ''Expecting value''" for c
    by (simp_all add: replying_def unreachable_def)
  from unparseable_body_answer [OF tok, of ?p ?bad ?r "''Expecting value''" ?f "''RIFF''"]
    ok sent
  have parse: "identify_by_url (Some ''k'') ?bad ?p =
     ([url_call ''k'' ''https://a.b/c.mp3''],
      Inl (HTTPException 502 ''Failed contacting recognition service: Expecting value''))"
    "identify_by_file (Some ''k'') ?bad ?f = ([file_call ''k'' ?f ''RIFF''],
      Inl (HTTPException 502 ''Failed contacting recognition service: Expecting value''))"
    by (simp_all add: trimmed)
  from unparseable_body_answer [OF tok, of ?p ?down ?r "''Expecting value''" ?f "''RIFF''"]
    ok lost
  have transport: "identify_by_url (Some ''k'') ?down ?p =
     ([url_call ''k'' ''https://a.b/c.mp3''],
      Inl (HTTPException 502 ''Failed contacting recognition service: Expecting value''))"
    "identify_by_file (Some ''k'') ?down ?f = ([file_call ''k'' ?f ''RIFF''],
      Inl (HTTPException 502 ''Failed contacting recognition service: Expecting value''))"
    by (simp_all add: trimmed)
  have generic:
    "snd (identify_by_url (Some ''k'') (replying (Inr (JObj [(''status'', JStr ''error'')])))
       ?p) = Inl (HTTPException 502 ''Recognition service error'')"
    "snd (identify_by_file (Some ''k'') (replying (Inr (JObj [(''status'', JStr ''error'')])))
       ?f) = Inl (HTTPException 502 ''Recognition service error'')"
    by (simp_all add: identify_by_url_def identify_by_file_def trimmed ok startswith_def
        Let_def contact_def replying_def interpret_data_def dict_get_def)
  from parse transport generic show ?thesis
    by (intro conjI)
qed

text \<open>
  Claim C2 as it is written fails: an unparseable body is answered with the text of the
  parse exception behind the transport-failure prefix, not with the fixed message
  \<^verbatim>\<open>Recognition service error\<close>.
\<close>

theorem unparseable_body_counterexample:
  "snd (identify_by_url (Some ''k'') (replying (Inl ''Expecting value''))
     \<lparr>url = ''https://a.b/c.mp3''\<rparr>) =
     Inl (HTTPException 502 ''Failed contacting recognition service: Expecting value'') \<and>
   snd (identify_by_url (Some ''k'') (replying (Inl ''Expecting value''))
     \<lparr>url = ''https://a.b/c.mp3''\<rparr>) \<noteq>
     Inl (HTTPException 502 ''Recognition service error'') \<and>
   snd (identify_by_file (Some ''k'') (replying (Inl ''Expecting value''))
     \<lparr>filename = None, content_type = None, read = Inr ''RIFF''\<rparr>) =
     Inl (HTTPException 502 ''Failed contacting recognition service: Expecting value'')"
  by (simp add: identify_by_url_def identify_by_file_def strip_def isspace_def
      startswith_def Let_def contact_def replying_def)

text \<open>
  Claim C7. When the provider's parsed answer has status \<^verbatim>\<open>success\<close> and its result is
  absent, null or empty (anything Python counts as false, the empty object included),
  both operations make their one call and return \<^verbatim>\<open>{found: false}\<close> as a normal
  response, not an error.
\<close>

theorem no_match_found_false:
  assumes "token \<noteq> []"
    and "r_json r = Inr (JObj kvs)"
    and "map_of kvs ''status'' = Some (JStr ''success'')"
    and "\<not> truthy (dict_get kvs ''result'')"
  shows
    "((startswith (strip (url payload)) ''http://'' \<or>
       startswith (strip (url payload)) ''https://'') \<and>
      post (url_call token (strip (url payload))) = Inr r \<longrightarrow>
      identify_by_url (Some token) post payload =
        ([url_call token (strip (url payload))], Inr (JObj [(''found'', JBool False)]))) \<and>
     (read file = Inr content \<and> post (file_call token file content) = Inr r \<longrightarrow>
      identify_by_file (Some token) post file =
        ([file_call token file content], Inr (JObj [(''found'', JBool False)])))"
proof -
  from assms(3) have status: "dict_get kvs ''status'' = JStr ''success''"
    by (simp add: dict_get_def)
  have answer: "interpret_data (JObj kvs) = Inr (JObj [(''found'', JBool False)])"
    using status assms(4) by (rule interpret_data_no_match)
  show ?thesis
  proof (intro conjI impI)
    assume "(startswith (strip (url payload)) ''http://'' \<or>
       startswith (strip (url payload)) ''https://'') \<and>
      post (url_call token (strip (url payload))) = Inr r"
    with assms(1,2) answer show "identify_by_url (Some token) post payload =
        ([url_call token (strip (url payload))], Inr (JObj [(''found'', JBool False)]))"
      by (simp add: identify_by_url_calls contact_parsed)
  next
    assume "read file = Inr content \<and> post (file_call token file content) = Inr r"
    with assms(1,2) answer show "identify_by_file (Some token) post file =
        ([file_call token file content], Inr (JObj [(''found'', JBool False)]))"
      by (simp add: identify_by_file_calls contact_parsed)
  qed
qed

theorem no_match_found_false_witness:
  "\<not> truthy (dict_get [(''status'', JStr ''success''), (''result'', JObj [])] ''result'') \<and>
   \<not> truthy (dict_get [(''status'', JStr ''success''), (''result'', JNull)] ''result'') \<and>
   \<not> truthy (dict_get [(''status'', JStr ''success'')] ''result'') \<and>
   identify_by_url (Some ''k'')
     (replying (Inr (JObj [(''status'', JStr ''success''), (''result'', JObj [])])))
     \<lparr>url = ''https://a.b/c.mp3''\<rparr> =
     ([url_call ''k'' ''https://a.b/c.mp3''], Inr (JObj [(''found'', JBool False)])) \<and>
   identify_by_url (Some ''k'')
     (replying (Inr (JObj [(''status'', JStr ''success''), (''result'', JNull)])))
     \<lparr>url = ''https://a.b/c.mp3''\<rparr> =
     ([url_call ''k'' ''https://a.b/c.mp3''], Inr (JObj [(''found'', JBool False)])) \<and>
   identify_by_file (Some ''k'')
     (replying (Inr (JObj [(''status'', JStr ''success'')])))
     \<lparr>filename = None, content_type = None, read = Inr ''RIFF''\<rparr> =
     ([file_call ''k'' \<lparr>filename = None, content_type = None, read = Inr ''RIFF''\<rparr> ''RIFF''],
      Inr (JObj [(''found'', JBool False)]))"
proof -
  let ?empty = "[(''status'', JStr ''success''), (''result'', JObj [])]"
  let ?null = "[(''status'', JStr ''success''), (''result'', JNull)]"
  let ?absent = "[(''status'', JStr ''success'')]"
  let ?p = "\<lparr>url = ''https://a.b/c.mp3''\<rparr>"
  let ?f = "\<lparr>filename = None, content_type = None, read = Inr ''RIFF''\<rparr>"
  have tok: "''k'' \<noteq> []" by simp
  have body: "r_json (Response (Inr (JObj kvs))) = Inr (JObj kvs)" for kvs by simp
  have status: "map_of ?empty ''status'' = Some (JStr ''success'')"
    "map_of ?null ''status'' = Some (JStr ''success'')"
    "map_of ?absent ''status'' = Some (JStr ''success'')"
    by simp_all
  have none: "\<not> truthy (dict_get ?empty ''result'')"
    "\<not> truthy (dict_get ?null ''result'')"
    "\<not> truthy (dict_get ?absent ''result'')"
    by (simp_all add: dict_get_def)
  have trimmed: "strip ''https://a.b/c.mp3'' = ''https://a.b/c.mp3''"
    by (simp add: strip_def isspace_def)
  have ok: "startswith ''https://a.b/c.mp3'' ''https://''"
    by (simp add: startswith_def)
  have sent: "replying (Inr d) c = Inr (Response (Inr d))" for d c
    by (simp add: replying_def)
  from no_match_found_false [OF tok body status(1) none(1),
      of ?p "replying (Inr (JObj ?empty))" ?f "''RIFF''"] ok sent
  have a: "identify_by_url (Some ''k'') (replying (Inr (JObj ?empty))) ?p =
     ([url_call ''k'' ''https://a.b/c.mp3''], Inr (JObj [(''found'', JBool False)]))"
    by (simp add: trimmed)
  from no_match_found_false [OF tok body status(2) none(2),
      of ?p "replying (Inr (JObj ?null))" ?f "''RIFF''"] ok sent
  have b: "identify_by_url (Some ''k'') (replying (Inr (JObj ?null))) ?p =
     ([url_call ''k'' ''https://a.b/c.mp3''], Inr (JObj [(''found'', JBool False)]))"
    by (simp add: trimmed)
  from no_match_found_false [OF tok body status(3) none(3),
      of ?p "replying (Inr (JObj ?absent))" ?f "''RIFF''"] ok sent
  have c: "identify_by_file (Some ''k'') (replying (Inr (JObj ?absent))) ?f =
     ([file_call ''k'' ?f ''RIFF''], Inr (JObj [(''found'', JBool False)]))"
    by (simp add: trimmed)
  from none a b c show ?thesis
    by (intro conjI)
qed

text \<open>
  For an answer that is an object, the handlers do what the specification says of a
  status other than \<^verbatim>\<open>success\<close>: status 502 and the fixed message, whatever else the
  object holds.
\<close>

lemma object_non_success_502:
  assumes "token \<noteq> []"
    and "r_json r = Inr (JObj kvs)"
    and "map_of kvs ''status'' \<noteq> Some (JStr ''success'')"
  shows
    "((startswith (strip (url payload)) ''http://'' \<or>
       startswith (strip (url payload)) ''https://'') \<and>
      post (url_call token (strip (url payload))) = Inr r \<longrightarrow>
      identify_by_url (Some token) post payload =
        ([url_call token (strip (url payload))],
         Inl (HTTPException 502 ''Recognition service error''))) \<and>
     (read file = Inr content \<and> post (file_call token file content) = Inr r \<longrightarrow>
      identify_by_file (Some token) post file =
        ([file_call token file content],
         Inl (HTTPException 502 ''Recognition service error'')))"
proof -
  from assms(3) have "dict_get kvs ''status'' \<noteq> JStr ''success''"
    by (auto simp: dict_get_def split: option.splits)
  then have answer:
    "interpret_data (JObj kvs) = Inl (HTTPException 502 ''Recognition service error'')"
    by (rule interpret_data_not_success)
  show ?thesis
  proof (intro conjI impI)
    assume "(startswith (strip (url payload)) ''http://'' \<or>
       startswith (strip (url payload)) ''https://'') \<and>
      post (url_call token (strip (url payload))) = Inr r"
    with assms(1,2) answer show "identify_by_url (Some token) post payload =
        ([url_call token (strip (url payload))],
         Inl (HTTPException 502 ''Recognition service error''))"
      by (simp add: identify_by_url_calls contact_parsed)
  next
    assume "read file = Inr content \<and> post (file_call token file content) = Inr r"
    with assms(1,2) answer show "identify_by_file (Some token) post file =
        ([file_call token file content],
         Inl (HTTPException 502 ''Recognition service error''))"
      by (simp add: identify_by_file_calls contact_parsed)
  qed
qed

text \<open>
  Claim C8. Every parseable provider answer whose status field is not \<^verbatim>\<open>success\<close> should
  be answered with the upstream-logic error, status 502. The code does so for objects
  and for empty answers, but a parseable answer that is a non-empty array (likewise a
  non-empty string, a non-zero number or \<^verbatim>\<open>true\<close>) has no \<^verbatim>\<open>get\<close> method: the test on
  lines 91 and 119 raises \<^verbatim>\<open>AttributeError\<close> outside the \<^verbatim>\<open>try\<close> block, and no
  \<^verbatim>\<open>HTTPException\<close> is produced. Here the provider answers \<^verbatim>\<open>[1]\<close>.
\<close>

theorem non_object_answer_raises:
  "identify_by_url (Some ''k'') (replying (Inr (JArr [JInt 1])))
     \<lparr>url = ''https://a.b/c.mp3''\<rparr> =
     ([url_call ''k'' ''https://a.b/c.mp3''], Inl AttributeError) \<and>
   identify_by_file (Some ''k'') (replying (Inr (JArr [JInt 1])))
     \<lparr>filename = None, content_type = None, read = Inr ''RIFF''\<rparr> =
     ([file_call ''k'' \<lparr>filename = None, content_type = None, read = Inr ''RIFF''\<rparr> ''RIFF''],
      Inl AttributeError) \<and>
   Inl AttributeError \<noteq>
     (Inl (HTTPException 502 ''Recognition service error'') :: error + json)"
  by (simp add: identify_by_url_def identify_by_file_def strip_def isspace_def
      startswith_def Let_def contact_def replying_def interpret_data_def)

text \<open>
  Claim C9. For every uploaded clip that can be read, \<^verbatim>\<open>identify_by_file\<close> makes exactly
  one call, a multipart request whose file part carries the clip's bytes, with the file
  name \<^verbatim>\<open>clip.mp3\<close> when the upload's name is absent or empty and the content type
  \<^verbatim>\<open>audio/mpeg\<close> when the upload's type is absent or empty. It validates no url: the
  call carries none, and the operation never answers with the validation error 422.
\<close>

theorem upload_fallbacks:
  assumes "token \<noteq> []" and "read file = Inr content"
  shows "fst (identify_by_file (Some token) post file) =
     [\<lparr>post_url = ''https://api.audd.io/'',
       post_data = [(''api_token'', token),
                    (''return'', ''timecode,deezer,spotify,apple_music'')],
       post_files =
         [(''file'',
           (case filename file of
              None \<Rightarrow> ''clip.mp3''
            | Some n \<Rightarrow> if n = [] then ''clip.mp3'' else n),
           content,
           (case content_type file of
              None \<Rightarrow> ''audio/mpeg''
            | Some t \<Rightarrow> if t = [] then ''audio/mpeg'' else t))],
       post_timeout = 60\<rparr>] \<and>
     (\<forall>d. snd (identify_by_file (Some token) post file) \<noteq> Inl (HTTPException 422 d))"
proof -
  have name: "str_or x d = (case x of None \<Rightarrow> d | Some n \<Rightarrow> if n = [] then d else n)"
    for x d
    by (cases x) simp_all
  from assms have call: "fst (identify_by_file (Some token) post file) =
      [file_call token file content]"
    by (simp add: identify_by_file_calls)
  have no_422: "\<forall>d. snd (identify_by_file (Some token) post file) \<noteq>
      Inl (HTTPException 422 d)"
    by (intro allI identify_by_file_never_422)
  from call no_422 show ?thesis
    by (simp only: file_call_def name) simp
qed

theorem upload_fallbacks_witness:
  "fst (identify_by_file (Some ''k'') (unreachable ''down'')
     \<lparr>filename = Some [], content_type = None, read = Inr ''RIFF''\<rparr>) =
     [\<lparr>post_url = ''https://api.audd.io/'',
       post_data = [(''api_token'', ''k''),
                    (''return'', ''timecode,deezer,spotify,apple_music'')],
       post_files = [(''file'', ''clip.mp3'', ''RIFF'', ''audio/mpeg'')],
       post_timeout = 60\<rparr>] \<and>
   fst (identify_by_file (Some ''k'') (unreachable ''down'')
     \<lparr>filename = Some ''a.wav'', content_type = Some ''audio/wav'', read = Inr ''RIFF''\<rparr>) =
     [\<lparr>post_url = ''https://api.audd.io/'',
       post_data = [(''api_token'', ''k''),
                    (''return'', ''timecode,deezer,spotify,apple_music'')],
       post_files = [(''file'', ''a.wav'', ''RIFF'', ''audio/wav'')],
       post_timeout = 60\<rparr>]"
proof -
  let ?f = "\<lparr>filename = Some [], content_type = None, read = Inr ''RIFF''\<rparr>"
  let ?g = "\<lparr>filename = Some ''a.wav'', content_type = Some ''audio/wav'',
     read = Inr ''RIFF''\<rparr>"
  have tok: "''k'' \<noteq> []" by simp
  have f: "read ?f = Inr ''RIFF''" and g: "read ?g = Inr ''RIFF''" by simp_all
  from upload_fallbacks [OF tok f, of "unreachable ''down''"]
    upload_fallbacks [OF tok g, of "unreachable ''down''"]
  show ?thesis
    by simp
qed




end
